theory Spec2Isabelle
  imports Main
begin

section \<open>Handlers, contexts and the run-time state\<close>

text \<open>
  A Go \<open>error\<close> that is not nil is its message; a nil \<open>error\<close> is \<open>None\<close> of
  \<open>error option\<close>.
\<close>

type_synonym error = string

text \<open>The fields of \<open>http.Request\<close> that routing looks at.\<close>

record request =
  r_method :: string
  r_path :: string

text \<open>
  What an \<open>http.ResponseWriter\<close> has received: whether the status line is committed, the
  status, the header map and the bytes of the body.
\<close>

record response =
  wroteHeader :: bool
  status :: nat
  header :: "string \<rightharpoonup> string"
  body :: string

text \<open>
  \<open>type Context struct { app *App; req *http.Request; res http.ResponseWriter }\<close>.
  Each field is a reference that may be nil: \<open>app\<close> is the address of the application,
  \<open>res\<close> the address of a response sink.
\<close>

record Context =
  c_app :: "nat option"
  c_req :: "request option"
  c_res :: "nat option"

definition blank :: Context where
  "blank = \<lparr>c_app = None, c_req = None, c_res = None\<rparr>"

text \<open>
  The state a request runs in: the heap of \<open>Context\<close> objects (\<open>ctxs\<close>, by address), the
  free list of the application's \<open>sync.Pool\<close> (\<open>pool\<close>), the next unused address
  (\<open>fresh\<close>), the response sinks by address, the lines written by \<open>log.Printf\<close>, and
  whatever else handlers act on (\<open>user\<close>).
\<close>

record 'u world =
  ctxs :: "nat \<Rightarrow> Context"
  pool :: "nat list"
  fresh :: nat
  sinks :: "nat \<Rightarrow> response"
  logs :: "string list"
  user :: 'u

text \<open>
  \<open>Handler\<close>, \<open>HandlerFunc\<close>, \<open>MiddlewareFunc\<close> and \<open>ErrorHandler\<close> of handler.go. A handler
  receives a \<open>*Context\<close> (\<open>None\<close> is the nil pointer) and returns an \<open>error\<close>; its effects
  are a new state. Function values themselves are taken to be non-nil, except where the source
  tests for nil (\<open>Config.ErrorHandler\<close>).
\<close>

type_synonym 'u Handler = "nat option \<Rightarrow> 'u world \<Rightarrow> error option \<times> 'u world"

type_synonym 'u MiddlewareFunc = "'u Handler \<Rightarrow> 'u Handler"

type_synonym 'u ErrorHandler = "nat option \<Rightarrow> error \<Rightarrow> 'u world \<Rightarrow> error option \<times> 'u world"

definition Handle :: "'u Handler \<Rightarrow> nat option \<Rightarrow> 'u world \<Rightarrow> error option \<times> 'u world" where
  "Handle f ctx wd = f ctx wd"

section \<open>The standard library's responder\<close>

text \<open>
  \<open>http.StatusText\<close>, \<open>ResponseWriter.WriteHeader\<close>, \<open>ResponseWriter.Write\<close>, \<open>http.Error\<close>
  and \<open>http.NotFound\<close> belong to Go's net/http, not to this repository; they are written
  here as that package documents them. \<open>WriteHeader\<close> after the status line is committed
  changes nothing; \<open>Write\<close> commits status 200 first if nothing was committed; \<open>Error\<close> sets
  the plain-text headers, writes the status and then the message followed by a newline.
\<close>

definition StatusNotFound :: nat where
  "StatusNotFound = 404"

definition StatusInternalServerError :: nat where
  "StatusInternalServerError = 500"

definition StatusText :: "nat \<Rightarrow> string" where
  "StatusText code =
     (if code = 200 then ''OK''
      else if code = 400 then ''Bad Request''
      else if code = 404 then ''Not Found''
      else if code = 500 then ''Internal Server Error''
      else [])"

definition rw_WriteHeader :: "nat \<Rightarrow> response \<Rightarrow> response" where
  "rw_WriteHeader code rw =
     (if wroteHeader rw then rw else rw\<lparr>wroteHeader := True, status := code\<rparr>)"

definition rw_Write :: "string \<Rightarrow> response \<Rightarrow> response" where
  "rw_Write bs rw =
     (let rw1 = (if wroteHeader rw then rw else rw_WriteHeader 200 rw)
      in rw1\<lparr>body := body rw1 @ bs\<rparr>)"

definition rw_Error :: "string \<Rightarrow> nat \<Rightarrow> response \<Rightarrow> response" where
  "rw_Error msg code rw =
     (let rw1 = rw\<lparr>header := (header rw)(''Content-Length'' := None)\<rparr>;
          rw2 = rw1\<lparr>header := (header rw1)(''Content-Type'' \<mapsto> ''text/plain; charset=utf-8'')\<rparr>;
          rw3 = rw2\<lparr>header := (header rw2)(''X-Content-Type-Options'' \<mapsto> ''nosniff'')\<rparr>;
          rw4 = rw_WriteHeader code rw3
      in rw_Write (msg @ [CHR 0x0A]) rw4)"

definition http_Error :: "nat \<Rightarrow> string \<Rightarrow> nat \<Rightarrow> 'u world \<Rightarrow> 'u world" where
  "http_Error w msg code wd = wd\<lparr>sinks := (sinks wd)(w := rw_Error msg code (sinks wd w))\<rparr>"

definition http_NotFound :: "nat \<Rightarrow> request \<Rightarrow> 'u world \<Rightarrow> 'u world" where
  "http_NotFound w r wd = http_Error w ''404 page not found'' StatusNotFound wd"

definition log_Printf :: "string \<Rightarrow> 'u world \<Rightarrow> 'u world" where
  "log_Printf line wd = wd\<lparr>logs := logs wd @ [line]\<rparr>"

section \<open>handler.go: the default error handler\<close>

definition DefaultErrorHandler :: "'u ErrorHandler" where
  "DefaultErrorHandler c err wd =
     (case c of
        None \<Rightarrow> (Some err, log_Printf (''error: '' @ err @ '' (context nil)'') wd)
      | Some p \<Rightarrow>
          (case c_res (ctxs wd p) of
             None \<Rightarrow> (Some err, log_Printf (''error: '' @ err @ '' (context nil)'') wd)
           | Some w \<Rightarrow>
               (let wd1 = log_Printf (''internal server error: '' @ err) wd;
                    wd2 = http_Error w (StatusText StatusInternalServerError)
                            StatusInternalServerError wd1
                in (Some err, wd2))))"

section \<open>The application: configuration and construction\<close>

record 'u Config =
  BodyLimit :: int
  ReadTimeout :: int
  WriteTimeout :: int
  IdleTimeout :: int
  ErrorHandler :: "'u ErrorHandler option"

text \<open>\<open>time.Duration\<close> counts nanoseconds.\<close>

definition time_Second :: int where
  "time_Second = 1000000000"

text \<open>The fields of \<open>http.Server\<close> that \<open>New\<close> and \<open>Listen\<close> set.\<close>

record Server =
  srv_Addr :: string
  srv_Handler :: "nat option"
  srv_ReadTimeout :: int
  srv_WriteTimeout :: int
  srv_IdleTimeout :: int

text \<open>
  What the closure installed by \<open>addRoute\<close> captures besides the application pointer: the
  handler and the route's middleware.
\<close>

record 'u route =
  rt_handler :: "'u Handler"
  rt_middleware :: "'u MiddlewareFunc list"

text \<open>
  \<open>type App struct\<close>. \<open>self\<close> is the address of the object (what \<open>ctx.app = app\<close> and
  \<open>Handler: app\<close> store). \<open>mux\<close> is the \<open>*http.ServeMux\<close>: \<open>None\<close> is nil, otherwise the
  registered patterns with their callbacks, in registration order. \<open>middleware\<close> is the
  global stack, \<open>None\<close> for the nil slice. The free list of \<open>pool\<close> changes while requests
  run and is kept in the run-time state.
\<close>

record 'u App =
  self :: nat
  config :: "'u Config"
  server :: "Server option"
  mux :: "(string \<times> 'u route) list option"
  middleware :: "'u MiddlewareFunc list option"

definition New :: "nat \<Rightarrow> 'u Config \<Rightarrow> 'u App" where
  "New p cfg0 =
     (let cfg1 = (if BodyLimit cfg0 = 0 then cfg0\<lparr>BodyLimit := 4 * 1024 * 1024\<rparr> else cfg0);
          cfg2 = (if ReadTimeout cfg1 = 0 then cfg1\<lparr>ReadTimeout := 15 * time_Second\<rparr> else cfg1);
          cfg3 = (if WriteTimeout cfg2 = 0 then cfg2\<lparr>WriteTimeout := 15 * time_Second\<rparr> else cfg2);
          cfg4 = (if IdleTimeout cfg3 = 0 then cfg3\<lparr>IdleTimeout := 60 * time_Second\<rparr> else cfg3);
          cfg5 = (if ErrorHandler cfg4 = None
                  then cfg4\<lparr>ErrorHandler := Some DefaultErrorHandler\<rparr> else cfg4)
      in \<lparr>self = p,
          config = cfg5,
          server = Some \<lparr>srv_Addr = [],
                          srv_Handler = Some p,
                          srv_ReadTimeout = ReadTimeout cfg5,
                          srv_WriteTimeout = WriteTimeout cfg5,
                          srv_IdleTimeout = IdleTimeout cfg5\<rparr>,
          mux = Some [],
          middleware = Some []\<rparr>)"

section \<open>The context pool\<close>

text \<open>
  \<open>sync.Pool\<close> with \<open>New: func() interface{} { return new(Context) }\<close>: \<open>Get\<close> takes an
  instance off the free list, or allocates a zero-valued one when the list is empty;
  \<open>Put\<close> returns an instance to the list.
\<close>

definition pool_Get :: "'u world \<Rightarrow> nat \<times> 'u world" where
  "pool_Get wd =
     (case pool wd of
        c # rest \<Rightarrow> (c, wd\<lparr>pool := rest\<rparr>)
      | [] \<Rightarrow> (fresh wd, wd\<lparr>ctxs := (ctxs wd)(fresh wd := blank), fresh := Suc (fresh wd)\<rparr>))"

definition pool_Put :: "nat \<Rightarrow> 'u world \<Rightarrow> 'u world" where
  "pool_Put c wd = wd\<lparr>pool := c # pool wd\<rparr>"

definition acquireContext :: "'u App \<Rightarrow> request \<Rightarrow> nat \<Rightarrow> 'u world \<Rightarrow> nat \<times> 'u world" where
  "acquireContext app r w wd =
     (let (ctx, wd0) = pool_Get wd;
          wd1 = wd0\<lparr>ctxs := (ctxs wd0)(ctx := (ctxs wd0 ctx)\<lparr>c_app := Some (self app)\<rparr>)\<rparr>;
          wd2 = wd1\<lparr>ctxs := (ctxs wd1)(ctx := (ctxs wd1 ctx)\<lparr>c_req := Some r\<rparr>)\<rparr>;
          wd3 = wd2\<lparr>ctxs := (ctxs wd2)(ctx := (ctxs wd2 ctx)\<lparr>c_res := Some w\<rparr>)\<rparr>
      in (ctx, wd3))"

definition releaseContext :: "'u App \<Rightarrow> nat \<Rightarrow> 'u world \<Rightarrow> 'u world" where
  "releaseContext app ctx wd =
     (let wd1 = wd\<lparr>ctxs := (ctxs wd)(ctx := (ctxs wd ctx)\<lparr>c_app := None\<rparr>)\<rparr>;
          wd2 = wd1\<lparr>ctxs := (ctxs wd1)(ctx := (ctxs wd1 ctx)\<lparr>c_req := None\<rparr>)\<rparr>;
          wd3 = wd2\<lparr>ctxs := (ctxs wd2)(ctx := (ctxs wd2 ctx)\<lparr>c_res := None\<rparr>)\<rparr>
      in pool_Put ctx wd3)"

text \<open>Every context on the free list owns nothing.\<close>

definition pool_clean :: "'u world \<Rightarrow> bool" where
  "pool_clean wd = (\<forall>c \<in> set (pool wd). ctxs wd c = blank)"

section \<open>Composition and dispatch\<close>

text \<open>The elements of a slice held in a field: a nil slice has none.\<close>

fun slice_elems :: "'a list option \<Rightarrow> 'a list" where
  "slice_elems None = []"
| "slice_elems (Some xs) = xs"

text \<open>
  The loop \<open>for i := len(ms) - 1; i >= 0; i-- { h = ms[i](h) }\<close>, which \<open>addRoute\<close> runs
  over the route's middleware and \<open>applyMiddleware\<close> over the global stack, from index
  \<open>i\<close> on.
\<close>

function wrap_loop :: "'u MiddlewareFunc list \<Rightarrow> int \<Rightarrow> 'u Handler \<Rightarrow> 'u Handler" where
  "wrap_loop ms i h = (if 0 \<le> i then wrap_loop ms (i - 1) ((ms ! nat i) h) else h)"
  by pat_completeness auto
termination
  by (relation "measure (\<lambda>(ms, i, h). nat (i + 1))") auto

declare wrap_loop.simps [simp del]

definition applyMiddleware :: "'u App \<Rightarrow> 'u Handler \<Rightarrow> 'u Handler" where
  "applyMiddleware app handler =
     wrap_loop (slice_elems (middleware app))
       (int (length (slice_elems (middleware app))) - 1) handler"

text \<open>
  Lines 79 to 87 of the closure: the route's middleware is wrapped around the handler, then
  the global stack, read from the application when the request runs.
\<close>

definition composeChain :: "'u App \<Rightarrow> 'u route \<Rightarrow> 'u Handler" where
  "composeChain app rt =
     (let finalHandler = rt_handler rt;
          finalHandler = wrap_loop (rt_middleware rt)
                           (int (length (rt_middleware rt)) - 1) finalHandler;
          finalHandler = applyMiddleware app finalHandler
      in finalHandler)"

text \<open>
  How a call ends: it returns, or it panics (a nil function is called); either way with the
  state its deferred calls leave.
\<close>

datatype 'a exit = Returned 'a | Panicked 'a

text \<open>
  The closure \<open>func(w http.ResponseWriter, r *http.Request)\<close> that \<open>addRoute\<close> installs.
  \<open>app\<close> is the application as it is when the request runs (the closure holds the
  pointer). The deferred \<open>releaseContext\<close> runs last on every path.
\<close>

definition routeWrapper ::
  "'u App \<Rightarrow> 'u route \<Rightarrow> nat \<Rightarrow> request \<Rightarrow> 'u world \<Rightarrow> 'u world exit" where
  "routeWrapper app rt w r wd =
     (let (ctx, wd1) = acquireContext app r w wd;
          finalHandler = composeChain app rt;
          (err, wd2) = Handle finalHandler (Some ctx) wd1
      in case err of
           None \<Rightarrow> Returned (releaseContext app ctx wd2)
         | Some e \<Rightarrow>
             (case ErrorHandler (config app) of
                None \<Rightarrow> Panicked (releaseContext app ctx wd2)
              | Some eh \<Rightarrow>
                  (let (_, wd3) = eh (Some ctx) e wd2
                   in Returned (releaseContext app ctx wd3))))"

definition Use :: "'u App \<Rightarrow> 'u MiddlewareFunc list \<Rightarrow> 'u App" where
  "Use app ms =
     (let app1 = (if middleware app = None then app\<lparr>middleware := Some []\<rparr> else app)
      in app1\<lparr>middleware := Some (slice_elems (middleware app1) @ ms)\<rparr>)"

text \<open>
  \<open>addRoute\<close> hands the pattern and the closure to \<open>ServeMux.HandleFunc\<close>. On a nil
  \<open>mux\<close> that call panics (\<open>None\<close>). The closure is kept as the variables it captures.
  The matcher's own rules for malformed or conflicting patterns are its business and are
  not modelled: the table keeps every registration, in order.
\<close>

definition addRoute ::
  "'u App \<Rightarrow> string \<Rightarrow> string \<Rightarrow> 'u Handler \<Rightarrow> 'u MiddlewareFunc list \<Rightarrow> 'u App option" where
  "addRoute app method path handler ms =
     (let pattern = method @ '' '' @ path
      in case mux app of
           None \<Rightarrow> None
         | Some table \<Rightarrow>
             Some (app\<lparr>mux := Some (table @ [(pattern,
                     \<lparr>rt_handler = handler, rt_middleware = ms\<rparr>)])\<rparr>))"

definition Get ::
  "'u App \<Rightarrow> string \<Rightarrow> 'u Handler \<Rightarrow> 'u MiddlewareFunc list \<Rightarrow> 'u App option" where
  "Get app path handler ms = addRoute app ''GET'' path handler ms"

definition Post ::
  "'u App \<Rightarrow> string \<Rightarrow> 'u Handler \<Rightarrow> 'u MiddlewareFunc list \<Rightarrow> 'u App option" where
  "Post app path handler ms = addRoute app ''POST'' path handler ms"

text \<open>
  Modelled from the spec: the matcher (\<open>http.ServeMux\<close>, outside this repository) under
  its contract "register(key, callback) and dispatch(request): invoke the matching callback
  or report no-match". A request matches the key made of its method, a space and its
  path; no match is answered as \<open>http.NotFound\<close> does.
\<close>

definition mux_match :: "string \<Rightarrow> request \<Rightarrow> bool" where
  "mux_match pattern r = (pattern = r_method r @ '' '' @ r_path r)"

definition ServeMux_ServeHTTP ::
  "'u App \<Rightarrow> (string \<times> 'u route) list \<Rightarrow> nat \<Rightarrow> request \<Rightarrow> 'u world \<Rightarrow> 'u world exit" where
  "ServeMux_ServeHTTP app table w r wd =
     (case find (\<lambda>(pattern, rt). mux_match pattern r) table of
        None \<Rightarrow> Returned (http_NotFound w r wd)
      | Some (pattern, rt) \<Rightarrow> routeWrapper app rt w r wd)"

definition ServeHTTP :: "'u App \<Rightarrow> nat \<Rightarrow> request \<Rightarrow> 'u world \<Rightarrow> 'u world exit" where
  "ServeHTTP app w r wd =
     (case mux app of
        Some table \<Rightarrow> ServeMux_ServeHTTP app table w r wd
      | None \<Rightarrow> Returned (http_NotFound w r wd))"

text \<open>The routes an application has installed.\<close>

definition routes :: "'u App \<Rightarrow> (string \<times> 'u route) list" where
  "routes app = slice_elems (mux app)"

text \<open>
  A state in which nothing has happened yet, and a response sink nothing was written to.
\<close>

definition fresh_response :: response where
  "fresh_response = \<lparr>wroteHeader = False, status = 0, header = Map.empty, body = []\<rparr>"

definition init_world :: "'u \<Rightarrow> 'u world" where
  "init_world u =
     \<lparr>ctxs = (\<lambda>_. blank), pool = [], fresh = 0, sinks = (\<lambda>_. fresh_response),
      logs = [], user = u\<rparr>"

text \<open>
  Instrumentation for observing order: a middleware that records its name in the shared
  log on the way in and on the way out, and a handler that records its name and returns
  the given result.
\<close>

definition enter :: "string \<Rightarrow> string" where
  "enter name = ''>'' @ name"

definition leave :: "string \<Rightarrow> string" where
  "leave name = ''<'' @ name"

definition probe :: "string \<Rightarrow> (string list) MiddlewareFunc" where
  "probe name next =
     (\<lambda>ctx wd.
        let wd1 = wd\<lparr>user := user wd @ [enter name]\<rparr>;
            (err, wd2) = Handle next ctx wd1
        in (err, wd2\<lparr>user := user wd2 @ [leave name]\<rparr>))"

definition endpoint :: "string \<Rightarrow> error option \<Rightarrow> (string list) Handler" where
  "endpoint name result = (\<lambda>ctx wd. (result, wd\<lparr>user := user wd @ [name]\<rparr>))"

section \<open>Groups and their middleware slices\<close>

text \<open>
  A Go slice is a pointer to a backing array, a length and a capacity. The store is the
  list of the backing arrays allocated so far, each as long as its capacity; \<open>s_ptr\<close> is an
  index into it. The nil slice has length and capacity 0.
\<close>

record slice =
  s_ptr :: nat
  s_len :: nat
  s_cap :: nat

definition nil_slice :: slice where
  "nil_slice = \<lparr>s_ptr = 0, s_len = 0, s_cap = 0\<rparr>"

text \<open>The elements a slice shows: the first \<open>s_len\<close> slots of its array.\<close>

definition slice_view :: "'a list list \<Rightarrow> slice \<Rightarrow> 'a list" where
  "slice_view st s = (if s_len s = 0 then [] else take (s_len s) (st ! s_ptr s))"

text \<open>
  The built-in \<open>append(s, vs...)\<close>. When the capacity of \<open>s\<close> suffices, the values are written
  into the array \<open>s\<close> points to, after its length, and the result points to that same
  array. Otherwise a new array is allocated and filled with the elements of \<open>s\<close> and the
  values; its capacity is at least what is needed and otherwise what the runtime's growth
  rule \<open>grow\<close> (old capacity, needed length) says; \<open>z\<close> is the zero value of the element
  type, in the slots not yet used. \<open>make([]T, n, c)\<close> allocates an array of \<open>c\<close> zero values.
\<close>

definition go_append ::
  "'a \<Rightarrow> (nat \<Rightarrow> nat \<Rightarrow> nat) \<Rightarrow> 'a list list \<Rightarrow> slice \<Rightarrow> 'a list \<Rightarrow> slice \<times> 'a list list" where
  "go_append z grow st s vs =
     (let n = s_len s + length vs
      in if n \<le> s_cap s
         then (s\<lparr>s_len := n\<rparr>,
               if vs = [] then st
               else st[s_ptr s := take (s_len s) (st ! s_ptr s) @ vs @ drop n (st ! s_ptr s)])
         else (let c = max n (grow (s_cap s) n)
               in (\<lparr>s_ptr = length st, s_len = n, s_cap = c\<rparr>,
                   st @ [slice_view st s @ vs @ replicate (c - n) z])))"

definition go_make :: "'a \<Rightarrow> nat \<Rightarrow> nat \<Rightarrow> 'a list list \<Rightarrow> slice \<times> 'a list list" where
  "go_make z n c st = (\<lparr>s_ptr = length st, s_len = n, s_cap = c\<rparr>, st @ [replicate c z])"

text \<open>The growth rule of the Go runtime for short slices: twice the old capacity.\<close>

definition doubling :: "nat \<Rightarrow> nat \<Rightarrow> nat" where
  "doubling old needed = 2 * old"

text \<open>
  \<open>type Group struct { app *App; prefix string; middleware []MiddlewareFunc }\<close>. The
  methods take the group and the store and return the group as the call leaves it.
  \<open>App.Group\<close> stores the slice it is called with (the variadic parameter) as it is; \<open>Use\<close>
  and \<open>Group\<close> append to the group's slice; \<open>addRoute\<close> copies the group's middleware and
  the call's into an array of its own and registers the route on the application the group
  points to (\<open>app\<close>).
\<close>

record Group =
  g_app :: nat
  g_prefix :: string
  g_middleware :: slice

definition App_Group :: "'u App \<Rightarrow> string \<Rightarrow> slice \<Rightarrow> Group" where
  "App_Group app prefix ms = \<lparr>g_app = self app, g_prefix = prefix, g_middleware = ms\<rparr>"

definition Group_Use ::
  "'a \<Rightarrow> (nat \<Rightarrow> nat \<Rightarrow> nat) \<Rightarrow> Group \<Rightarrow> 'a list \<Rightarrow> 'a list list \<Rightarrow> Group \<times> 'a list list" where
  "Group_Use z grow g ms st =
     (let (s, st1) = go_append z grow st (g_middleware g) ms
      in (g\<lparr>g_middleware := s\<rparr>, st1))"

definition Group_Group ::
  "'a \<Rightarrow> (nat \<Rightarrow> nat \<Rightarrow> nat) \<Rightarrow> Group \<Rightarrow> string \<Rightarrow> 'a list \<Rightarrow> 'a list list
     \<Rightarrow> Group \<times> 'a list list" where
  "Group_Group z grow g prefix ms st =
     (let (s, st1) = go_append z grow st (g_middleware g) ms
      in (\<lparr>g_app = g_app g, g_prefix = g_prefix g @ prefix, g_middleware = s\<rparr>, st1))"

definition Group_addRoute ::
  "'u MiddlewareFunc \<Rightarrow> (nat \<Rightarrow> nat \<Rightarrow> nat) \<Rightarrow> Group \<Rightarrow> 'u App \<Rightarrow> string \<Rightarrow> string
     \<Rightarrow> 'u Handler \<Rightarrow> 'u MiddlewareFunc list \<Rightarrow> 'u MiddlewareFunc list list
     \<Rightarrow> 'u App option \<times> 'u MiddlewareFunc list list" where
  "Group_addRoute z grow g app method path handler ms st =
     (let fullPath = g_prefix g @ path;
          (all0, st0) = go_make z 0 (s_len (g_middleware g) + length ms) st;
          (all1, st1) = go_append z grow st0 all0 (slice_view st0 (g_middleware g));
          (all2, st2) = go_append z grow st1 all1 ms
      in (addRoute app method fullPath handler (slice_view st2 all2), st2))"

definition Group_Get ::
  "'u MiddlewareFunc \<Rightarrow> (nat \<Rightarrow> nat \<Rightarrow> nat) \<Rightarrow> Group \<Rightarrow> 'u App \<Rightarrow> string
     \<Rightarrow> 'u Handler \<Rightarrow> 'u MiddlewareFunc list \<Rightarrow> 'u MiddlewareFunc list list
     \<Rightarrow> 'u App option \<times> 'u MiddlewareFunc list list" where
  "Group_Get z grow g app path handler ms st = Group_addRoute z grow g app ''GET'' path handler ms st"

text \<open>A slice fits the store: its array exists and is as long as its capacity.\<close>

definition wf_slice :: "'a list list \<Rightarrow> slice \<Rightarrow> bool" where
  "wf_slice st s =
     (s_len s \<le> s_cap s \<and>
      (0 < s_cap s \<longrightarrow> s_ptr s < length st \<and> length (st ! s_ptr s) = s_cap s))"

definition get_sx :: request where
  "get_sx = \<lparr>r_method = ''GET'', r_path = ''/api/s/x''\<rparr>"

text \<open>The zero-valued configuration, and a request to use in examples.\<close>

definition zero_config :: "'u Config" where
  "zero_config = \<lparr>BodyLimit = 0, ReadTimeout = 0, WriteTimeout = 0, IdleTimeout = 0,
                   ErrorHandler = None\<rparr>"

definition get_a :: request where
  "get_a = \<lparr>r_method = ''GET'', r_path = ''/a''\<rparr>"

text \<open>The state a call ended with, returned or panicked.\<close>

fun exit_state :: "'a exit \<Rightarrow> 'a" where
  "exit_state (Returned x) = x"
| "exit_state (Panicked x) = x"

definition get_b :: request where
  "get_b = \<lparr>r_method = ''GET'', r_path = ''/b''\<rparr>"

section \<open>Properties of the pool\<close>

lemma Context_cleared:
  "c\<lparr>c_app := None, c_req := None, c_res := None\<rparr> = blank"
  by (cases c) (simp add: blank_def)

lemma Context_populated:
  "c\<lparr>c_app := a, c_req := r, c_res := w\<rparr> = \<lparr>c_app = a, c_req = r, c_res = w\<rparr>"
  by (cases c) simp

lemma releaseContext_ctxs:
  "ctxs (releaseContext app ctx wd) = (ctxs wd)(ctx := blank)"
  by (simp add: releaseContext_def pool_Put_def Context_cleared)

lemma releaseContext_pool:
  "pool (releaseContext app ctx wd) = ctx # pool wd"
  by (simp add: releaseContext_def pool_Put_def)

lemma releaseContext_keeps_clean:
  "pool_clean wd \<Longrightarrow> pool_clean (releaseContext app ctx wd)"
  by (simp add: pool_clean_def releaseContext_ctxs releaseContext_pool)

lemma pool_Get_blank:
  "pool_clean wd \<Longrightarrow> pool_Get wd = (c, wd') \<Longrightarrow> ctxs wd' c = blank \<and> pool_clean wd'"
  by (auto simp: pool_clean_def pool_Get_def split: list.splits)

lemma acquireContext_populates:
  "acquireContext app r w wd = (c, wd') \<Longrightarrow>
     ctxs wd' c = \<lparr>c_app = Some (self app), c_req = Some r, c_res = Some w\<rparr>"
  by (auto simp: acquireContext_def pool_Get_def Context_populated split: list.splits prod.splits)

lemma acquireContext_init:
  "acquireContext app r w (init_world u)
     = (0, (init_world u)\<lparr>ctxs := (\<lambda>_. blank)(0 := \<lparr>c_app = Some (self app), c_req = Some r, c_res = Some w\<rparr>),
                            fresh := Suc 0\<rparr>)"
  by (simp add: acquireContext_def pool_Get_def init_world_def blank_def)

text \<open>
  C5. Releasing a context sets its three fields to nil and puts it on the free list. The
  next \<open>Get\<close> hands out that same instance with all three fields still nil, and
  \<open>acquireContext\<close> on it stores the application, the request and the response sink it is
  given.
\<close>

theorem pool_round_trip:
  "ctxs (releaseContext app ctx wd) ctx = \<lparr>c_app = None, c_req = None, c_res = None\<rparr>
   \<and> pool (releaseContext app ctx wd) = ctx # pool wd
   \<and> fst (pool_Get (releaseContext app ctx wd)) = ctx
   \<and> ctxs (snd (pool_Get (releaseContext app ctx wd))) ctx
       = \<lparr>c_app = None, c_req = None, c_res = None\<rparr>
   \<and> fst (acquireContext app' r w (releaseContext app ctx wd)) = ctx
   \<and> ctxs (snd (acquireContext app' r w (releaseContext app ctx wd))) ctx
       = \<lparr>c_app = Some (self app'), c_req = Some r, c_res = Some w\<rparr>"
  by (simp add: releaseContext_def pool_Put_def pool_Get_def acquireContext_def
        Context_cleared Context_populated blank_def)

section \<open>Properties of construction\<close>

lemma New_config_kept:
  "BodyLimit (config (New p cfg)) = (if BodyLimit cfg = 0 then 4 * 1024 * 1024 else BodyLimit cfg)
   \<and> ReadTimeout (config (New p cfg))
       = (if ReadTimeout cfg = 0 then 15 * time_Second else ReadTimeout cfg)
   \<and> WriteTimeout (config (New p cfg))
       = (if WriteTimeout cfg = 0 then 15 * time_Second else WriteTimeout cfg)
   \<and> IdleTimeout (config (New p cfg))
       = (if IdleTimeout cfg = 0 then 60 * time_Second else IdleTimeout cfg)
   \<and> ErrorHandler (config (New p cfg))
       = (if ErrorHandler cfg = None then Some DefaultErrorHandler else ErrorHandler cfg)"
  by (simp add: New_def Let_def)

lemma New_has_ErrorHandler: "ErrorHandler (config (New p cfg)) \<noteq> None"
  by (simp add: New_def Let_def)

lemma New_routing_empty: "mux (New p cfg) = Some [] \<and> middleware (New p cfg) = Some []"
  by (simp add: New_def Let_def)

text \<open>
  C8. For a configuration whose five fields are all zero-valued, \<open>New\<close> yields the
  configuration with body limit \<open>4 * 1024 * 1024\<close>, read and write timeout 15 seconds, idle
  timeout 60 seconds and \<open>DefaultErrorHandler\<close>; the server it builds carries the three
  timeouts field by field (an \<open>http.Server\<close> has no field for the body limit or the error
  handler; its handler is the application itself).
\<close>

theorem New_zero_config_defaults:
  assumes "BodyLimit cfg = 0" and "ReadTimeout cfg = 0" and "WriteTimeout cfg = 0"
    and "IdleTimeout cfg = 0" and "ErrorHandler cfg = None"
  shows "config (New p cfg)
           = \<lparr>BodyLimit = 4 * 1024 * 1024,
              ReadTimeout = 15 * time_Second,
              WriteTimeout = 15 * time_Second,
              IdleTimeout = 60 * time_Second,
              ErrorHandler = Some DefaultErrorHandler\<rparr>
         \<and> BodyLimit (config (New p cfg)) = 4194304
         \<and> ReadTimeout (config (New p cfg)) = 15000000000
         \<and> WriteTimeout (config (New p cfg)) = 15000000000
         \<and> IdleTimeout (config (New p cfg)) = 60000000000
         \<and> server (New p cfg)
           = Some \<lparr>srv_Addr = [],
                   srv_Handler = Some p,
                   srv_ReadTimeout = 15 * time_Second,
                   srv_WriteTimeout = 15 * time_Second,
                   srv_IdleTimeout = 60 * time_Second\<rparr>"
proof -
  have shape: "cfg = \<lparr>BodyLimit = 0, ReadTimeout = 0, WriteTimeout = 0, IdleTimeout = 0,
                        ErrorHandler = None\<rparr>"
    using assms by (cases cfg) simp
  show ?thesis
    unfolding shape by (simp add: New_def Let_def time_Second_def)
qed

theorem New_zero_config_defaults_witness:
  "config (New 1 \<lparr>BodyLimit = 0, ReadTimeout = 0, WriteTimeout = 0, IdleTimeout = 0,
                   ErrorHandler = (None :: unit ErrorHandler option)\<rparr>)
     = \<lparr>BodyLimit = 4194304, ReadTimeout = 15000000000, WriteTimeout = 15000000000,
        IdleTimeout = 60000000000, ErrorHandler = Some DefaultErrorHandler\<rparr>
   \<and> server (New 1 \<lparr>BodyLimit = 0, ReadTimeout = 0, WriteTimeout = 0, IdleTimeout = 0,
                      ErrorHandler = (None :: unit ErrorHandler option)\<rparr>)
     = Some \<lparr>srv_Addr = [], srv_Handler = Some 1, srv_ReadTimeout = 15000000000,
             srv_WriteTimeout = 15000000000, srv_IdleTimeout = 60000000000\<rparr>"
  using New_zero_config_defaults
          [of "\<lparr>BodyLimit = 0, ReadTimeout = 0, WriteTimeout = 0, IdleTimeout = 0,
                ErrorHandler = (None :: unit ErrorHandler option)\<rparr>" 1]
  by (simp add: time_Second_def)

section \<open>Properties of the default error handler\<close>

lemma rw_Error_body: "body (rw_Error msg code rw) = body rw @ msg @ [CHR 0x0A]"
  by (simp add: rw_Error_def rw_Write_def rw_WriteHeader_def Let_def)

lemma rw_Error_status:
  "status (rw_Error msg code rw) = (if wroteHeader rw then status rw else code)"
  by (simp add: rw_Error_def rw_Write_def rw_WriteHeader_def Let_def)

lemma rw_Error_fresh:
  "\<not> wroteHeader rw \<Longrightarrow> status (rw_Error msg code rw) = code \<and> wroteHeader (rw_Error msg code rw)"
  by (simp add: rw_Error_def rw_Write_def rw_WriteHeader_def Let_def)

text \<open>
  C7. If the context pointer is nil or the context's response sink is nil,
  \<open>DefaultErrorHandler\<close> returns the error it was given and changes nothing but the log
  (one line); no sink is written. Otherwise it returns the error, logs one line, and
  writes to the context's sink alone: the body grows by exactly the status text
  \<open>Internal Server Error\<close> and a newline, the status is 500 unless a status was already
  committed, and what is written is the same for every failure message.
\<close>

theorem DefaultErrorHandler_post:
  "((c = None \<or> (\<exists>p. c = Some p \<and> c_res (ctxs wd p) = None)) \<longrightarrow>
       DefaultErrorHandler c err wd
         = (Some err, wd\<lparr>logs := logs wd @ [''error: '' @ err @ '' (context nil)'']\<rparr>)
       \<and> sinks (snd (DefaultErrorHandler c err wd)) = sinks wd)
   \<and> (\<forall>p w. c = Some p \<and> c_res (ctxs wd p) = Some w \<longrightarrow>
       fst (DefaultErrorHandler c err wd) = Some err
       \<and> logs (snd (DefaultErrorHandler c err wd))
           = logs wd @ [''internal server error: '' @ err]
       \<and> body (sinks (snd (DefaultErrorHandler c err wd)) w)
           = body (sinks wd w) @ ''Internal Server Error'' @ [CHR 0x0A]
       \<and> status (sinks (snd (DefaultErrorHandler c err wd)) w)
           = (if wroteHeader (sinks wd w) then status (sinks wd w) else 500)
       \<and> (\<forall>w'. w' \<noteq> w \<longrightarrow> sinks (snd (DefaultErrorHandler c err wd)) w' = sinks wd w')
       \<and> (\<forall>err'. sinks (snd (DefaultErrorHandler c err' wd))
                   = sinks (snd (DefaultErrorHandler c err wd))))"
  by (auto simp: DefaultErrorHandler_def log_Printf_def http_Error_def rw_Error_body
        rw_Error_status StatusText_def StatusInternalServerError_def Let_def)

theorem DefaultErrorHandler_post_witness:
  "DefaultErrorHandler None ''boom'' (init_world ())
     = (Some ''boom'', (init_world ())\<lparr>logs := [''error: boom (context nil)'']\<rparr>)
   \<and> DefaultErrorHandler (Some 0) ''boom'' (init_world ())
     = (Some ''boom'', (init_world ())\<lparr>logs := [''error: boom (context nil)'']\<rparr>)
   \<and> body (sinks (snd (DefaultErrorHandler (Some 0) ''boom''
         (snd (acquireContext (New 1 zero_config) get_a 7 (init_world ()))))) 7)
     = ''Internal Server Error'' @ [CHR 0x0A]
   \<and> status (sinks (snd (DefaultErrorHandler (Some 0) ''boom''
         (snd (acquireContext (New 1 zero_config) get_a 7 (init_world ()))))) 7)
     = 500"
proof -
  let ?wd = "snd (acquireContext (New 1 (zero_config :: unit Config)) get_a 7 (init_world ()))"
  have res: "c_res (ctxs ?wd 0) = Some 7"
    by (simp add: acquireContext_init)
  have sink: "sinks ?wd 7 = fresh_response"
    unfolding acquireContext_init by (simp add: init_world_def)
  have nil_ctx: "DefaultErrorHandler None ''boom'' (init_world ())
     = (Some ''boom'', (init_world ())\<lparr>logs := [''error: boom (context nil)'']\<rparr>)"
    using DefaultErrorHandler_post [of None "init_world ()" "''boom''"]
    by (simp add: init_world_def)
  have nil_sink: "DefaultErrorHandler (Some 0) ''boom'' (init_world ())
     = (Some ''boom'', (init_world ())\<lparr>logs := [''error: boom (context nil)'']\<rparr>)"
    using DefaultErrorHandler_post [of "Some 0" "init_world ()" "''boom''"]
    by (simp add: init_world_def blank_def)
  have written: "body (sinks (snd (DefaultErrorHandler (Some 0) ''boom'' ?wd)) 7)
                   = ''Internal Server Error'' @ [CHR 0x0A]
               \<and> status (sinks (snd (DefaultErrorHandler (Some 0) ''boom'' ?wd)) 7) = 500"
    using DefaultErrorHandler_post [of "Some 0" ?wd "''boom''"] res sink
    by (simp add: fresh_response_def)
  show ?thesis
    using nil_ctx nil_sink written by simp
qed

section \<open>Properties of composition and dispatch\<close>

lemma wrap_loop_prefix:
  "wrap_loop (xs @ ys) (int (length xs) - 1) h = foldr (\<lambda>m k. m k) xs h"
proof (induction xs arbitrary: ys h rule: rev_induct)
  case Nil
  show ?case by (simp add: wrap_loop.simps)
next
  case (snoc x xs)
  have "wrap_loop ((xs @ [x]) @ ys) (int (length (xs @ [x])) - 1) h
          = wrap_loop (xs @ (x # ys)) (int (length xs) - 1) (x h)"
    by (subst wrap_loop.simps) (simp add: nth_append)
  also have "\<dots> = foldr (\<lambda>m k. m k) xs (x h)"
    by (rule snoc.IH)
  finally show ?case by simp
qed

lemma wrap_loop_all:
  "wrap_loop ms (int (length ms) - 1) h = foldr (\<lambda>m k. m k) ms h"
  using wrap_loop_prefix [of ms "[]" h] by simp

lemma composeChain_foldr:
  "composeChain app rt
     = foldr (\<lambda>m k. m k) (slice_elems (middleware app) @ rt_middleware rt) (rt_handler rt)"
  by (simp add: composeChain_def applyMiddleware_def wrap_loop_all Let_def)

lemma probe_apply:
  "probe n k ctx wd
     = (fst (k ctx (wd\<lparr>user := user wd @ [enter n]\<rparr>)),
        (snd (k ctx (wd\<lparr>user := user wd @ [enter n]\<rparr>)))
          \<lparr>user := user (snd (k ctx (wd\<lparr>user := user wd @ [enter n]\<rparr>))) @ [leave n]\<rparr>)"
  by (simp add: probe_def Handle_def Let_def split_beta)

lemma probes_trace:
  "foldr (\<lambda>m k. m k) (map probe ns) h ctx wd
     = (fst (h ctx (wd\<lparr>user := user wd @ map enter ns\<rparr>)),
        (snd (h ctx (wd\<lparr>user := user wd @ map enter ns\<rparr>)))
          \<lparr>user := user (snd (h ctx (wd\<lparr>user := user wd @ map enter ns\<rparr>)))
                     @ map leave (rev ns)\<rparr>)"
proof (induction ns arbitrary: wd)
  case Nil
  show ?case by simp
next
  case (Cons n ns)
  have step: "foldr (\<lambda>m k. m k) (map probe (n # ns)) h
                = probe n (foldr (\<lambda>m k. m k) (map probe ns) h)"
    by simp
  let ?F = "foldr (\<lambda>m k. m k) (map probe ns) h"
  let ?wd1 = "wd\<lparr>user := user wd @ [enter n]\<rparr>"
  have inner: "?F ctx ?wd1
     = (fst (h ctx (?wd1\<lparr>user := user ?wd1 @ map enter ns\<rparr>)),
        (snd (h ctx (?wd1\<lparr>user := user ?wd1 @ map enter ns\<rparr>)))
          \<lparr>user := user (snd (h ctx (?wd1\<lparr>user := user ?wd1 @ map enter ns\<rparr>)))
                     @ map leave (rev ns)\<rparr>)"
    by (rule Cons.IH)
  have outer: "probe n ?F ctx wd
     = (fst (?F ctx ?wd1), (snd (?F ctx ?wd1))\<lparr>user := user (snd (?F ctx ?wd1)) @ [leave n]\<rparr>)"
    by (rule probe_apply)
  show ?case
    unfolding step outer inner by simp
qed


text \<open>
  C2. For every handler \<open>H\<close>, route middleware \<open>R\<close> and global stack \<open>G\<close>, the chain the
  closure builds is \<open>g1 (g2 (... (gm (r1 (r2 (... (rn H)))))))\<close>. Run with recording
  middleware, it logs the global names in registration order, then the route names in
  registration order, then the handler, then the route names and the global names in
  reverse on the way out.
\<close>

theorem composition_order:
  "composeChain app \<lparr>rt_handler = H, rt_middleware = R\<rparr>
     = foldr (\<lambda>m k. m k) (slice_elems (middleware app) @ R) H
   \<and> Handle (composeChain (app'\<lparr>middleware := Some (map probe gs)\<rparr>)
               \<lparr>rt_handler = endpoint h res, rt_middleware = map probe rs\<rparr>) ctx wd
     = (res, wd\<lparr>user := user wd @ map enter gs @ map enter rs @ [h]
                            @ map leave (rev rs) @ map leave (rev gs)\<rparr>)"
proof -
  have "foldr (\<lambda>m k. m k) (map probe gs @ map probe rs) (endpoint h res) ctx wd
          = (res, wd\<lparr>user := user wd @ map enter gs @ map enter rs @ [h]
                            @ map leave (rev rs) @ map leave (rev gs)\<rparr>)"
    using probes_trace [of "gs @ rs" "endpoint h res" ctx wd]
    by (simp add: endpoint_def)
  then show ?thesis
    by (simp add: composeChain_foldr Handle_def)
qed

theorem composition_order_witness:
  "Handle (composeChain ((New 1 zero_config)\<lparr>middleware := Some [probe ''g1'', probe ''g2'']\<rparr>)
               \<lparr>rt_handler = endpoint ''H'' None, rt_middleware = [probe ''r1'', probe ''r2'']\<rparr>)
           (Some 0) (init_world [])
     = (None, (init_world [])\<lparr>user :=
         [''>g1'', ''>g2'', ''>r1'', ''>r2'', ''H'', ''<r2'', ''<r1'', ''<g2'', ''<g1'']\<rparr>)"
  using conjunct2 [OF composition_order [where app' = "New 1 zero_config"
          and gs = "[''g1'', ''g2'']" and h = "''H''"
          and res = None and rs = "[''r1'', ''r2'']" and ctx = "Some 0" and wd = "init_world []"]]
  by (simp add: init_world_def enter_def leave_def)

text \<open>
  C4. With an error handler \<open>eh\<close> configured, the closure takes a context from the pool
  and stores the application, the request and the response sink in it; runs the composed
  chain on that context; if the chain returns an error \<open>e\<close>, applies \<open>eh\<close> once to the
  context and \<open>e\<close> in the state the chain left (before the release) and drops what it
  returns; if the chain returns nil, does not apply \<open>eh\<close>; and in both cases releases the
  context last, so that it ends blank and on the free list.
\<close>

theorem dispatch_wrapper_contract:
  assumes "ErrorHandler (config app) = Some eh"
    and "acquireContext app r w wd = (ctx, wd1)"
    and "Handle (composeChain app rt) (Some ctx) wd1 = (res, wd2)"
  shows "ctxs wd1 ctx = \<lparr>c_app = Some (self app), c_req = Some r, c_res = Some w\<rparr>
       \<and> routeWrapper app rt w r wd
           = Returned (releaseContext app ctx
               (case res of None \<Rightarrow> wd2 | Some e \<Rightarrow> snd (eh (Some ctx) e wd2)))
       \<and> ctxs (releaseContext app ctx
               (case res of None \<Rightarrow> wd2 | Some e \<Rightarrow> snd (eh (Some ctx) e wd2))) ctx
           = \<lparr>c_app = None, c_req = None, c_res = None\<rparr>
       \<and> pool (releaseContext app ctx
               (case res of None \<Rightarrow> wd2 | Some e \<Rightarrow> snd (eh (Some ctx) e wd2)))
           = ctx # pool (case res of None \<Rightarrow> wd2 | Some e \<Rightarrow> snd (eh (Some ctx) e wd2))"
proof -
  have pop: "ctxs wd1 ctx = \<lparr>c_app = Some (self app), c_req = Some r, c_res = Some w\<rparr>"
    using assms(2) by (rule acquireContext_populates)
  have wrap: "routeWrapper app rt w r wd
             = Returned (releaseContext app ctx
                 (case res of None \<Rightarrow> wd2 | Some e \<Rightarrow> snd (eh (Some ctx) e wd2)))"
    using assms
    by (simp add: routeWrapper_def split_beta split: option.split)
  show ?thesis
    using pop wrap
    by (simp add: releaseContext_ctxs releaseContext_pool blank_def)
qed

lemma New_zero_ErrorHandler:
  "ErrorHandler (config (New p zero_config)) = Some DefaultErrorHandler"
  by (simp add: New_def zero_config_def Let_def)

lemma composeChain_New:
  "composeChain (New p cfg) \<lparr>rt_handler = h, rt_middleware = []\<rparr> = h"
  by (simp add: composeChain_foldr New_def Let_def)

lemma const_upd_same: "(\<lambda>_. c)(x := c) = (\<lambda>_. c)"
  by (simp add: fun_eq_iff)

theorem dispatch_wrapper_contract_witness:
  "routeWrapper (New 1 zero_config) \<lparr>rt_handler = endpoint ''H'' (Some ''boom''), rt_middleware = []\<rparr>
      7 get_a (init_world [])
     = Returned
         \<lparr>ctxs = (\<lambda>_. blank), pool = [0], fresh = 1,
          sinks = (\<lambda>_. fresh_response)(7 := rw_Error ''Internal Server Error'' 500 fresh_response),
          logs = [''internal server error: boom''], user = [''H'']\<rparr>
   \<and> routeWrapper (New 1 zero_config) \<lparr>rt_handler = endpoint ''H'' None, rt_middleware = []\<rparr>
      7 get_a (init_world [])
     = Returned
         \<lparr>ctxs = (\<lambda>_. blank), pool = [0], fresh = 1, sinks = (\<lambda>_. fresh_response),
          logs = [], user = [''H'']\<rparr>"
proof -
  let ?app = "New 1 (zero_config :: (string list) Config)"
  let ?wd1 = "(init_world [])\<lparr>ctxs := (\<lambda>_. blank)(0 := \<lparr>c_app = Some (self ?app),
                  c_req = Some get_a, c_res = Some 7\<rparr>), fresh := Suc 0\<rparr>"
  have eh: "ErrorHandler (config ?app) = Some DefaultErrorHandler"
    by (rule New_zero_ErrorHandler)
  have acq: "acquireContext ?app get_a 7 (init_world []) = (0, ?wd1)"
    by (rule acquireContext_init)
  have fails: "Handle (composeChain ?app
                  \<lparr>rt_handler = endpoint ''H'' (Some ''boom''), rt_middleware = []\<rparr>) (Some 0) ?wd1
               = (Some ''boom'', ?wd1\<lparr>user := [''H'']\<rparr>)"
    by (simp add: composeChain_New Handle_def endpoint_def init_world_def)
  have succeeds: "Handle (composeChain ?app
                  \<lparr>rt_handler = endpoint ''H'' None, rt_middleware = []\<rparr>) (Some 0) ?wd1
               = (None, ?wd1\<lparr>user := [''H'']\<rparr>)"
    by (simp add: composeChain_New Handle_def endpoint_def init_world_def)
  show ?thesis
    using dispatch_wrapper_contract [OF eh acq fails]
          dispatch_wrapper_contract [OF eh acq succeeds]
    by (simp add: releaseContext_def pool_Put_def DefaultErrorHandler_def log_Printf_def
        http_Error_def StatusText_def StatusInternalServerError_def init_world_def Let_def
        Context_cleared blank_def const_upd_same)
qed

text \<open>
  C10. The closure drops what the error handler returns: two error handlers that change
  the state alike, whatever errors they return, give the same outcome of the request, and
  that outcome is a normal return.
\<close>

theorem error_handler_result_discarded:
  assumes "\<forall>c e s. snd (eh' c e s) = snd (eh c e s)"
  shows "routeWrapper (app\<lparr>config := (config app)\<lparr>ErrorHandler := Some eh'\<rparr>\<rparr>) rt w r wd
           = routeWrapper (app\<lparr>config := (config app)\<lparr>ErrorHandler := Some eh\<rparr>\<rparr>) rt w r wd
       \<and> (\<exists>wd'. routeWrapper (app\<lparr>config := (config app)\<lparr>ErrorHandler := Some eh\<rparr>\<rparr>) rt w r wd
                  = Returned wd')"
  using assms
  by (simp add: routeWrapper_def acquireContext_def composeChain_def applyMiddleware_def
      releaseContext_def split_beta Let_def split: option.split)

text \<open>
  C9. With no route installed (a nil \<open>mux\<close>, or one with nothing registered),
  \<open>ServeHTTP\<close> answers as \<open>http.NotFound\<close> does and returns normally, whatever the
  request's method or path: the sink receives status 404 (unless a status was already
  committed) and the line \<open>404 page not found\<close>.
\<close>

theorem no_route_not_found:
  assumes "routes app = []"
  shows "ServeHTTP app w r wd = Returned (http_NotFound w r wd)
       \<and> (\<forall>r'. ServeHTTP app w r' wd = ServeHTTP app w r wd)
       \<and> http_NotFound w r wd
           = wd\<lparr>sinks := (sinks wd)(w := rw_Error ''404 page not found'' 404 (sinks wd w))\<rparr>
       \<and> body (sinks (http_NotFound w r wd) w)
           = body (sinks wd w) @ ''404 page not found'' @ [CHR 0x0A]
       \<and> status (sinks (http_NotFound w r wd) w)
           = (if wroteHeader (sinks wd w) then status (sinks wd w) else 404)"
  using assms
  by (cases "mux app")
     (simp_all add: routes_def ServeHTTP_def ServeMux_ServeHTTP_def http_NotFound_def
        http_Error_def StatusNotFound_def rw_Error_body rw_Error_status)


theorem error_handler_result_discarded_witness:
  "routeWrapper ((New 1 zero_config)\<lparr>config := (config (New 1 zero_config))
                    \<lparr>ErrorHandler := Some (\<lambda>c e s. (None, snd (DefaultErrorHandler c e s)))\<rparr>\<rparr>)
      \<lparr>rt_handler = endpoint ''H'' (Some ''boom''), rt_middleware = []\<rparr> 7 get_a (init_world [])
   = routeWrapper ((New 1 zero_config)\<lparr>config := (config (New 1 zero_config))
                    \<lparr>ErrorHandler := Some DefaultErrorHandler\<rparr>\<rparr>)
      \<lparr>rt_handler = endpoint ''H'' (Some ''boom''), rt_middleware = []\<rparr> 7 get_a (init_world [])"
  using error_handler_result_discarded
          [of "\<lambda>c e s. (None, snd (DefaultErrorHandler c e s))" DefaultErrorHandler
              "New 1 zero_config"
              "\<lparr>rt_handler = endpoint ''H'' (Some ''boom''), rt_middleware = []\<rparr>"
              7 get_a "init_world []"]
  by simp

theorem no_route_not_found_witness:
  "ServeHTTP (New 1 zero_config) 7 \<lparr>r_method = ''POST'', r_path = ''/x''\<rparr> (init_world ())
     = Returned ((init_world ())\<lparr>sinks := (\<lambda>_. fresh_response)
          (7 := \<lparr>wroteHeader = True, status = 404,
                 header = [''Content-Type'' \<mapsto> ''text/plain; charset=utf-8'',
                           ''X-Content-Type-Options'' \<mapsto> ''nosniff''],
                 body = ''404 page not found'' @ [CHR 0x0A]\<rparr>)\<rparr>)"
proof -
  have none: "routes (New 1 (zero_config :: unit Config)) = []"
    by (simp add: routes_def New_def Let_def)
  show ?thesis
    using no_route_not_found [OF none, of 7 "\<lparr>r_method = ''POST'', r_path = ''/x''\<rparr>" "init_world ()"]
    by (simp add: init_world_def fresh_response_def rw_Error_def rw_Write_def rw_WriteHeader_def
        Let_def)
qed

section \<open>Global middleware and registration order\<close>

lemma Use_middleware:
  "middleware (Use app ms) = Some (slice_elems (middleware app) @ ms)"
  by (simp add: Use_def Let_def)

lemma Use_addRoute_commute:
  "addRoute (Use app ms) method path h rmw
     = map_option (\<lambda>a. Use a ms) (addRoute app method path h rmw)"
  by (cases "mux app") (simp_all add: addRoute_def Use_def Let_def)

lemma composeChain_after_Use:
  "composeChain (Use app ms) rt
     = foldr (\<lambda>m k. m k) (slice_elems (middleware app) @ ms @ rt_middleware rt) (rt_handler rt)"
  by (simp add: composeChain_foldr Use_middleware)

text \<open>
  C1, evaluated on the code. Route \<open>/a\<close> is registered, then \<open>Use\<close> adds the recording
  middleware \<open>m\<close>, then route \<open>/b\<close> is registered. A request to \<open>/b\<close> runs \<open>m\<close>, and so
  does a request to \<open>/a\<close>: the closure reads the global stack when the request runs, so the
  order of \<open>Use\<close> and \<open>addRoute\<close> makes no difference (\<open>Use_addRoute_commute\<close>).
\<close>

theorem Use_reaches_earlier_route:
  "map_option (\<lambda>app. (user (exit_state (ServeHTTP app 7 get_a (init_world []))),
                       user (exit_state (ServeHTTP app 7 get_b (init_world [])))))
     (Option.bind (Get (New 1 zero_config) ''/a'' (endpoint ''A'' None) [])
        (\<lambda>app1. Get (Use app1 [probe ''m'']) ''/b'' (endpoint ''B'' None) []))
   = Some ([''>m'', ''A'', ''<m''], [''>m'', ''B'', ''<m''])"
  by (simp add: Get_def addRoute_def New_def Use_def ServeHTTP_def ServeMux_ServeHTTP_def
      mux_match_def get_a_def get_b_def routeWrapper_def acquireContext_def pool_Get_def
      zero_config_def
      composeChain_foldr probe_def endpoint_def Handle_def releaseContext_def pool_Put_def
      enter_def leave_def Let_def init_world_def)

section \<open>Properties of groups\<close>

lemmas go_defs = go_append_def go_make_def slice_view_def Group_Use_def Group_Group_def
  App_Group_def nil_slice_def doubling_def Let_def

text \<open>
  C3, evaluated on the code. \<open>Group.Group\<close> concatenates the prefixes, and the child shows
  the parent's middleware followed by its own. But it builds the child's slice with
  \<open>append\<close> on the parent's slice: when the parent's array has room, the child points into
  that same array. First scenario, for any growth rule: the parent \<open>/api\<close> holds one
  middleware in an array of capacity 2; \<open>s\<close> is derived with \<open>m0\<close>, \<open>c\<close> is derived with
  nothing, and \<open>c.Use(m1)\<close> then overwrites the slot \<open>s\<close> shows, so the sibling \<open>s\<close> shows
  \<open>[a, m1]\<close> instead of \<open>[a, m0]\<close>; the parent still shows \<open>[a]\<close>. Second scenario: the
  same after \<open>Use(a); Use(b); Use(c)\<close> on an empty group under the doubling rule, which
  leaves length 3 in capacity 4.
\<close>

theorem derived_groups_share_array:
  "(let p = App_Group app ''/api'' \<lparr>s_ptr = 0, s_len = 1, s_cap = 2\<rparr>;
        st0 = [[a, z]];
        (s, st1) = Group_Group z grow p ''/s'' [m0] st0;
        (c, st2) = Group_Group z grow p ''/c'' [] st1;
        (c', st3) = Group_Use z grow c [m1] st2
    in (g_prefix s, s_ptr (g_middleware s) = s_ptr (g_middleware p),
        slice_view st2 (g_middleware s), slice_view st3 (g_middleware s),
        slice_view st3 (g_middleware p)))
   = (''/api/s'', True, [a, m0], [a, m1], [a])
 \<and> (let p0 = App_Group app ''/api'' nil_slice;
        (p1, st1) = Group_Use z doubling p0 [a] [];
        (p2, st2) = Group_Use z doubling p1 [b] st1;
        (p, st3) = Group_Use z doubling p2 [c] st2;
        (s, st4) = Group_Group z doubling p ''/s'' [m0] st3;
        (c, st5) = Group_Group z doubling p ''/c'' [] st4;
        (c', st6) = Group_Use z doubling c [m1] st5
    in (g_middleware p, g_middleware s, g_middleware c',
        slice_view st5 (g_middleware s), slice_view st6 (g_middleware s),
        slice_view st6 (g_middleware p)))
   = (\<lparr>s_ptr = 2, s_len = 3, s_cap = 4\<rparr>, \<lparr>s_ptr = 2, s_len = 4, s_cap = 4\<rparr>,
      \<lparr>s_ptr = 2, s_len = 4, s_cap = 4\<rparr>,
      [a, b, c, m0], [a, b, c, m1], [a, b, c])"
  by (simp add: go_defs)


lemma go_append_view:
  assumes "wf_slice st s" and "go_append z grow st s vs = (s', st')"
  shows "slice_view st' s' = slice_view st s @ vs \<and> wf_slice st' s'"
  using assms
  by (auto simp: go_append_def slice_view_def wf_slice_def Let_def nth_append
           split: if_splits)

lemma go_append_keeps_shorter:
  assumes "wf_slice st s" and "wf_slice st t" and "s_len t \<le> s_len s"
    and "go_append z grow st s vs = (s', st')"
  shows "slice_view st' t = slice_view st t \<and> wf_slice st' t"
  using assms
  by (auto simp: go_append_def slice_view_def wf_slice_def Let_def nth_append nth_list_update
           split: if_splits)

lemma Group_Group_fields:
  "g_prefix (fst (Group_Group z grow g prefix ms st)) = g_prefix g @ prefix
   \<and> g_app (fst (Group_Group z grow g prefix ms st)) = g_app g"
  by (simp add: Group_Group_def split_beta)

lemma Group_addRoute_registers:
  assumes "wf_slice st (g_middleware g)"
  shows "fst (Group_addRoute z grow g app method path handler ms st)
           = addRoute app method (g_prefix g @ path) handler
               (slice_view st (g_middleware g) @ ms)"
proof -
  let ?n = "s_len (g_middleware g) + length ms"
  let ?all0 = "\<lparr>s_ptr = length st, s_len = 0, s_cap = ?n\<rparr>"
  let ?st0 = "st @ [replicate ?n z]"
  let ?gm = "slice_view st (g_middleware g)"
  have mk: "go_make z 0 ?n st = (?all0, ?st0)"
    by (simp add: go_make_def)
  have wf0: "wf_slice ?st0 ?all0"
    by (simp add: wf_slice_def)
  have same: "slice_view ?st0 (g_middleware g) = ?gm"
    using assms by (auto simp: slice_view_def wf_slice_def nth_append)
  have len: "length ?gm = s_len (g_middleware g)"
    using assms by (auto simp: slice_view_def wf_slice_def)
  obtain all1 st1 where a1: "go_append z grow ?st0 ?all0 ?gm = (all1, st1)"
    by (cases "go_append z grow ?st0 ?all0 ?gm")
  obtain all2 st2 where a2: "go_append z grow st1 all1 ms = (all2, st2)"
    by (cases "go_append z grow st1 all1 ms")
  have v1: "slice_view st1 all1 = ?gm \<and> wf_slice st1 all1"
    using go_append_view [OF wf0 a1] by (simp add: slice_view_def)
  have v2: "slice_view st2 all2 = ?gm @ ms"
    using go_append_view [of st1 all1 z grow ms all2 st2] v1 a2 by simp
  show ?thesis
    by (simp add: Group_addRoute_def mk same a1 a2 v2 Let_def)
qed


lemma Group_Use_then_addRoute:
  assumes "wf_slice st (g_middleware g)" and "Group_Use z grow g us st = (g', st')"
  shows "fst (Group_addRoute z grow g' app method path handler ms st')
           = addRoute app method (g_prefix g @ path) handler
               (slice_view st (g_middleware g) @ us @ ms)"
proof -
  obtain s' where ap: "go_append z grow st (g_middleware g) us = (s', st')"
    and g': "g' = g\<lparr>g_middleware := s'\<rparr>"
    using assms(2) by (auto simp: Group_Use_def split: prod.splits)
  have "slice_view st' s' = slice_view st (g_middleware g) @ us \<and> wf_slice st' s'"
    using go_append_view [OF assms(1) ap] .
  then show ?thesis
    using Group_addRoute_registers [where st = st' and g = g' and ms = ms]
    by (simp add: g')
qed

lemmas serve_defs = Group_Get_def Group_addRoute_def addRoute_def New_def ServeHTTP_def
  ServeMux_ServeHTTP_def mux_match_def routeWrapper_def acquireContext_def pool_Get_def
  composeChain_foldr probe_def endpoint_def Handle_def releaseContext_def pool_Put_def
  enter_def leave_def init_world_def zero_config_def

text \<open>
  C6, evaluated on the code. A route registered through a group after the group's \<open>Use\<close>
  carries the group's middleware, then what \<open>Use\<close> added, then the call's
  (\<open>Group_Use_then_addRoute\<close>), under the path prefix; routes already registered hold a copy
  and are not touched. But a sibling is touched: \<open>s\<close> and \<open>g\<close> are derived from the same
  parent, \<open>s\<close> with \<open>m0\<close>; after \<open>g.Use(m1)\<close>, the route \<open>/api/s/x\<close> registered through \<open>s\<close>
  runs \<open>m1\<close> and never \<open>m0\<close>.
\<close>

theorem Group_Use_reaches_sibling_route:
  "(let app0 = New 1 zero_config;
        p = App_Group app0 ''/api'' \<lparr>s_ptr = 0, s_len = 1, s_cap = 2\<rparr>;
        st0 = [[probe ''a'', z]];
        (s, st1) = Group_Group z grow p ''/s'' [probe ''m0''] st0;
        (g, st2) = Group_Group z grow p ''/g'' [] st1;
        (g', st3) = Group_Use z grow g [probe ''m1''] st2;
        (app1, st4) = Group_Get z grow s app0 ''/x'' (endpoint ''X'' None) [] st3
    in map_option (\<lambda>app. user (exit_state (ServeHTTP app 7 get_sx (init_world [])))) app1)
   = Some [''>a'', ''>m1'', ''X'', ''<m1'', ''<a'']
 \<and> (let app0 = New 1 zero_config;
        p0 = App_Group app0 ''/api'' nil_slice;
        (p1, st1) = Group_Use z doubling p0 [probe ''a''] [];
        (p2, st2) = Group_Use z doubling p1 [probe ''b''] st1;
        (p, st3) = Group_Use z doubling p2 [probe ''c''] st2;
        (s, st4) = Group_Group z doubling p ''/s'' [probe ''m0''] st3;
        (g, st5) = Group_Group z doubling p ''/g'' [] st4;
        (g', st6) = Group_Use z doubling g [probe ''m1''] st5;
        (app1, st7) = Group_Get z doubling s app0 ''/x'' (endpoint ''X'' None) [] st6
    in map_option (\<lambda>app. user (exit_state (ServeHTTP app 7 get_sx (init_world [])))) app1)
   = Some [''>a'', ''>b'', ''>c'', ''>m1'', ''X'', ''<m1'', ''<c'', ''<b'', ''<a'']"
  by (simp add: go_defs serve_defs get_sx_def)

end
